theory Spec2Isabelle
  imports Complex_Main "HOL-Library.Word"
begin

section \<open>The collaboration relay of server.js\<close>

text \<open>
  The development embeds the Yjs WebSocket relay of \<^verbatim>\<open>server.js\<close> (lines 209--311):
  the room registry \<^verbatim>\<open>getRoom\<close>, the two initial sends, the connection handler
  \<^verbatim>\<open>onWSConnection\<close> with its \<^verbatim>\<open>message\<close> and \<^verbatim>\<open>close\<close> listeners, the \<^verbatim>\<open>upgrade\<close>
  listener and the \<^verbatim>\<open>/api/rooms\<close> route.

  The packages yjs, y-protocols, lib0 and ws are dependencies of the repository, not part
  of it.  What the relay needs of the document engine, of the awareness protocol and of
  the lib0 decoder is therefore a parameter (the record \<open>lib\<close> below), as is the
  engine's lower-casing of strings, and every theorem stated for a \<open>lib\<close> \<open>L\<close> holds for
  all values of that parameter.  Only the two lib0 writers the relay uses to
  frame its own messages are written out, since the relay inspects the length of what
  they produce.
\<close>

subsection \<open>Values\<close>

type_synonym byte = "8 word"

text \<open>A connection handle is the identity of one \<^verbatim>\<open>ws\<close> socket object.\<close>

type_synonym ws = nat

datatype ready_state = CONNECTING | OPEN | CLOSING | CLOSED

text \<open>
  The second argument of an awareness \<^verbatim>\<open>update\<close> event: the relay passes the sending
  socket; the awareness object itself uses strings such as \<^verbatim>\<open>'timeout'\<close>.
\<close>

datatype origin = Ws ws | Token string

text \<open>
  A JavaScript string is a sequence of 16-bit code units.  \<open>ascii\<close> gives the code units
  of a string literal of the source, whose characters are all ASCII.
\<close>

type_synonym jsstring = "16 word list"

definition ascii :: "string \<Rightarrow> jsstring" where
  "ascii t = map (\<lambda>c. word_of_nat (of_char c)) t"

text \<open>
  Presence states are the values \<^verbatim>\<open>JSON.parse\<close> produces.  Of a number only its being
  zero is ever inspected.
\<close>

datatype json =
    JNull
  | JBool bool
  | JNum real
  | JStr jsstring
  | JArr "json list"
  | JObj "(jsstring \<times> json) list"

datatype error = DecodeError | SyncError | AwarenessError | TypeError

text \<open>The object \<^verbatim>\<open>{ added, updated, removed }\<close> of an awareness event.\<close>

record changes =
  added :: "nat list"
  updated :: "nat list"
  removed :: "nat list"

subsection \<open>The external libraries, as a parameter\<close>

text \<open>
  A decoder is the list of bytes not yet read.  \<open>None\<close> is a thrown exception.
  \<^item> \<open>readVarUint\<close>, \<open>readVarUint8Array\<close>: \<^verbatim>\<open>lib0/decoding\<close>; the number read and the
    rest of the input.
  \<^item> \<open>newDoc\<close>: \<^verbatim>\<open>new Y.Doc()\<close>; the argument is the number of documents made before,
    since each document draws a client identifier of its own.
  \<^item> \<open>newAwareness\<close>: \<^verbatim>\<open>new awarenessProtocol.Awareness(doc)\<close>.
  \<^item> \<open>writeSyncStep1\<close>: the bytes \<^verbatim>\<open>syncProtocol.writeSyncStep1\<close> appends.
  \<^item> \<open>readSyncMessage\<close>: \<^verbatim>\<open>syncProtocol.readSyncMessage(dec, enc, doc)\<close>; the bytes it
    appends to \<^verbatim>\<open>enc\<close> and the document after it.
  \<^item> \<open>encodeAwarenessUpdate\<close>: \<^verbatim>\<open>awarenessProtocol.encodeAwarenessUpdate\<close>.
  \<^item> \<open>applyAwarenessUpdate\<close>: \<^verbatim>\<open>awarenessProtocol.applyAwarenessUpdate\<close>; the awareness
    after it and the \<^verbatim>\<open>update\<close> event it emits, if it emits one.
  \<^item> \<open>getStates\<close>: \<^verbatim>\<open>awareness.getStates()\<close>, a Map in insertion order.
  \<^item> \<open>toLowerCase\<close>: \<^verbatim>\<open>String.prototype.toLowerCase\<close>, which the engine computes from
    the case tables of Unicode.
\<close>

record ('doc, 'aw) lib =
  readVarUint :: "byte list \<Rightarrow> (nat \<times> byte list) option"
  readVarUint8Array :: "byte list \<Rightarrow> (byte list \<times> byte list) option"
  newDoc :: "nat \<Rightarrow> 'doc"
  newAwareness :: "'doc \<Rightarrow> 'aw"
  writeSyncStep1 :: "'doc \<Rightarrow> byte list"
  readSyncMessage :: "byte list \<Rightarrow> 'doc \<Rightarrow> (byte list \<times> 'doc) option"
  encodeAwarenessUpdate :: "'aw \<Rightarrow> nat list \<Rightarrow> byte list"
  applyAwarenessUpdate :: "'aw \<Rightarrow> byte list \<Rightarrow> ('aw \<times> changes option) option"
  getStates :: "'aw \<Rightarrow> (nat \<times> json) list"
  toLowerCase :: "jsstring \<Rightarrow> jsstring"

subsection \<open>Message framing\<close>

definition MSG_SYNC :: nat where
  "MSG_SYNC = 0"

definition MSG_AWARENESS :: nat where
  "MSG_AWARENESS = 1"

text \<open>
  \<^verbatim>\<open>encoding.writeVarUint\<close>: seven bits a byte, least significant first, the top bit set
  on every byte but the last.  The result is what the call appends to the encoder.
\<close>

fun writeVarUint :: "nat \<Rightarrow> byte list" where
  "writeVarUint num =
     (if num > 127 then word_of_nat (128 + num mod 128) # writeVarUint (num div 128)
      else [word_of_nat num])"

declare writeVarUint.simps [simp del]

text \<open>\<^verbatim>\<open>encoding.writeVarUint8Array\<close>: the length, then the bytes.\<close>

definition writeVarUint8Array :: "byte list \<Rightarrow> byte list" where
  "writeVarUint8Array arr = writeVarUint (length arr) @ arr"

subsection \<open>Rooms and the server state\<close>

text \<open>
  \<^verbatim>\<open>{ doc, awareness, conns }\<close>.  A JavaScript Set keeps insertion order and holds no
  element twice: \<open>conns\<close> is a list, and \<open>Set_add\<close> and \<open>Set_delete\<close> keep it so.
\<close>

record ('doc, 'aw) room =
  doc :: 'doc
  awareness :: 'aw
  conns :: "ws list"

text \<open>
  Room objects live in \<open>heap\<close>; a reference to a room is its index there.  \<open>rooms\<close> is the
  Map from names to room references, in insertion order.  \<open>readyState\<close> is the state of
  every socket, which the transport sets.  \<open>outbox\<close> records every call of \<^verbatim>\<open>ws.send\<close>, in
  order.
\<close>

record ('doc, 'aw) server =
  heap :: "('doc, 'aw) room list"
  rooms :: "(string \<times> nat) list"
  readyState :: "ws \<Rightarrow> ready_state"
  outbox :: "(ws \<times> byte list) list"

definition Set_add :: "'a \<Rightarrow> 'a list \<Rightarrow> 'a list" where
  "Set_add x xs = (if x \<in> set xs then xs else xs @ [x])"

definition Set_delete :: "'a \<Rightarrow> 'a list \<Rightarrow> 'a list" where
  "Set_delete x xs = removeAll x xs"

definition send :: "ws \<Rightarrow> byte list \<Rightarrow> ('doc, 'aw) server \<Rightarrow> ('doc, 'aw) server" where
  "send w buf s = s\<lparr>outbox := outbox s @ [(w, buf)]\<rparr>"

definition update_room ::
  "nat \<Rightarrow> (('doc, 'aw) room \<Rightarrow> ('doc, 'aw) room) \<Rightarrow> ('doc, 'aw) server \<Rightarrow> ('doc, 'aw) server" where
  "update_room r f s = s\<lparr>heap := (heap s)[r := f (heap s ! r)]\<rparr>"

text \<open>
  \<^verbatim>\<open>getRoom(name)\<close>: the stored room, or a new one.  The listener that \<^verbatim>\<open>getRoom\<close> puts on
  the new awareness is \<open>onAwarenessUpdate\<close> below; the constructor's own first event is
  emitted before the listener is there.
\<close>

definition getRoom ::
  "('doc, 'aw) lib \<Rightarrow> string \<Rightarrow> ('doc, 'aw) server \<Rightarrow> nat \<times> ('doc, 'aw) server" where
  "getRoom L name s =
     (case map_of (rooms s) name of
        Some r \<Rightarrow> (r, s)
      | None \<Rightarrow>
          (let d = newDoc L (length (heap s));
               a = newAwareness L d;
               r = length (heap s)
           in (r, s\<lparr>heap := heap s @ [\<lparr>doc = d, awareness = a, conns = []\<rparr>],
                     rooms := rooms s @ [(name, r)]\<rparr>)))"

text \<open>The listener of the awareness \<^verbatim>\<open>update\<close> event of room \<open>r\<close> (lines 225--232).\<close>

fun broadcast ::
  "origin \<Rightarrow> byte list \<Rightarrow> ws list \<Rightarrow> ('doc, 'aw) server \<Rightarrow> ('doc, 'aw) server" where
  "broadcast orig buf [] s = s"
| "broadcast orig buf (w # cs) s =
     broadcast orig buf cs
       (if Ws w \<noteq> orig \<and> readyState s w = OPEN then send w buf s else s)"

definition onAwarenessUpdate ::
  "('doc, 'aw) lib \<Rightarrow> nat \<Rightarrow> changes \<Rightarrow> origin \<Rightarrow> ('doc, 'aw) server \<Rightarrow> ('doc, 'aw) server" where
  "onAwarenessUpdate L r ev orig s =
     (let changed = added ev @ updated ev @ removed ev;
          buf = writeVarUint MSG_AWARENESS
                @ writeVarUint8Array (encodeAwarenessUpdate L (awareness (heap s ! r)) changed)
      in broadcast orig buf (conns (heap s ! r)) s)"

definition sendSync :: "('doc, 'aw) lib \<Rightarrow> ws \<Rightarrow> 'doc \<Rightarrow> ('doc, 'aw) server \<Rightarrow> ('doc, 'aw) server" where
  "sendSync L w d s = send w (writeVarUint MSG_SYNC @ writeSyncStep1 L d) s"

definition sendFullAwareness ::
  "('doc, 'aw) lib \<Rightarrow> ws \<Rightarrow> 'aw \<Rightarrow> ('doc, 'aw) server \<Rightarrow> ('doc, 'aw) server" where
  "sendFullAwareness L w a s =
     send w (writeVarUint MSG_AWARENESS
             @ writeVarUint8Array (encodeAwarenessUpdate L a (map fst (getStates L a)))) s"

text \<open>
  \<^verbatim>\<open>onWSConnection(ws, roomName)\<close> up to the registration of the two listeners.  The
  listeners close over the room's three objects; the model returns the room reference
  they are bound to.
\<close>

definition onWSConnection ::
  "('doc, 'aw) lib \<Rightarrow> ws \<Rightarrow> string \<Rightarrow> ('doc, 'aw) server \<Rightarrow> nat \<times> ('doc, 'aw) server" where
  "onWSConnection L w roomName s =
     (case getRoom L roomName s of
        (r, s1) \<Rightarrow>
          (let s2 = update_room r (\<lambda>rm. rm\<lparr>conns := Set_add w (conns rm)\<rparr>) s1;
               s3 = sendSync L w (doc (heap s2 ! r)) s2;
               s4 = sendFullAwareness L w (awareness (heap s3 ! r)) s3
           in (r, s4)))"

text \<open>The \<^verbatim>\<open>message\<close> listener of socket \<open>w\<close>, bound to room \<open>r\<close> (lines 264--277).\<close>

definition onMessage ::
  "('doc, 'aw) lib \<Rightarrow> ws \<Rightarrow> nat \<Rightarrow> byte list \<Rightarrow> ('doc, 'aw) server \<Rightarrow> error + ('doc, 'aw) server" where
  "onMessage L w r data s =
     (case readVarUint L data of
        None \<Rightarrow> Inl DecodeError
      | Some (type, dec) \<Rightarrow>
          if type = MSG_SYNC then
            (case readSyncMessage L dec (doc (heap s ! r)) of
               None \<Rightarrow> Inl SyncError
             | Some (written, d') \<Rightarrow>
                 (let s1 = update_room r (\<lambda>rm. rm\<lparr>doc := d'\<rparr>) s;
                      reply = writeVarUint MSG_SYNC @ written
                  in Inr (if length reply > 1 then send w reply s1 else s1)))
          else if type = MSG_AWARENESS then
            (case readVarUint8Array L dec of
               None \<Rightarrow> Inl DecodeError
             | Some (update, dec') \<Rightarrow>
                 (case applyAwarenessUpdate L (awareness (heap s ! r)) update of
                    None \<Rightarrow> Inl AwarenessError
                  | Some (a', evo) \<Rightarrow>
                      (let s1 = update_room r (\<lambda>rm. rm\<lparr>awareness := a'\<rparr>) s
                       in case evo of
                            None \<Rightarrow> Inr s1
                          | Some ev \<Rightarrow> Inr (onAwarenessUpdate L r ev (Ws w) s1))))
          else Inr s)"

text \<open>The \<^verbatim>\<open>close\<close> listener of socket \<open>w\<close>, bound to room \<open>r\<close> (lines 279--281).\<close>

definition onClose :: "ws \<Rightarrow> nat \<Rightarrow> ('doc, 'aw) server \<Rightarrow> ('doc, 'aw) server" where
  "onClose w r s = update_room r (\<lambda>rm. rm\<lparr>conns := Set_delete w (conns rm)\<rparr>) s"

subsection \<open>The upgrade listener\<close>

text \<open>
  What the listener reads of the parsed request URL: \<^verbatim>\<open>u.pathname\<close> and
  \<^verbatim>\<open>u.searchParams.get("room")\<close> (\<open>None\<close> for null).  A request whose URL does not parse
  has no such record: the constructor throws and the \<^verbatim>\<open>catch\<close> destroys the socket.
\<close>

record url =
  pathname :: string
  room_param :: "string option"

text \<open>\<^verbatim>\<open>pathname.replace(/^\/yjs\/?/, "")\<close>\<close>

definition strip_yjs :: "string \<Rightarrow> string" where
  "strip_yjs p =
     (if take 4 p = ''/yjs''
      then (if take 1 (drop 4 p) = ''/'' then drop 5 p else drop 4 p)
      else p)"

text \<open>
  The room the listener hands to \<^verbatim>\<open>wss.handleUpgrade\<close>, or \<open>None\<close> when it calls
  \<^verbatim>\<open>socket.destroy()\<close>.
\<close>

definition upgrade_room :: "url option \<Rightarrow> string option" where
  "upgrade_room req =
     (case req of
        None \<Rightarrow> None
      | Some u \<Rightarrow>
          if take 4 (pathname u) \<noteq> ''/yjs'' then None
          else (let room = strip_yjs (pathname u)
                in if room = []
                   then (case room_param u of
                           None \<Rightarrow> Some ''default''
                         | Some q \<Rightarrow> if q = [] then Some ''default'' else Some q)
                   else Some room))"

text \<open>
  The listener, with the socket \<open>w\<close> that \<^verbatim>\<open>handleUpgrade\<close> passes to its callback: the room
  reference the new connection is bound to, or \<open>None\<close> when the socket was destroyed.
\<close>

definition onUpgrade ::
  "('doc, 'aw) lib \<Rightarrow> url option \<Rightarrow> ws \<Rightarrow> ('doc, 'aw) server \<Rightarrow> nat option \<times> ('doc, 'aw) server" where
  "onUpgrade L req w s =
     (case upgrade_room req of
        None \<Rightarrow> (None, s)
      | Some room \<Rightarrow> (case onWSConnection L w room s of (r, s') \<Rightarrow> (Some r, s')))"

subsection \<open>The room directory\<close>

definition truthy :: "json \<Rightarrow> bool" where
  "truthy v =
     (case v of
        JNull \<Rightarrow> False
      | JBool b \<Rightarrow> b
      | JNum x \<Rightarrow> x \<noteq> 0
      | JStr t \<Rightarrow> t \<noteq> []
      | JArr _ \<Rightarrow> True
      | JObj _ \<Rightarrow> True)"

text \<open>\<^verbatim>\<open>st?.key\<close>: \<open>None\<close> is undefined.\<close>

definition get_prop :: "json \<Rightarrow> jsstring \<Rightarrow> json option" where
  "get_prop st key = (case st of JObj kvs \<Rightarrow> map_of kvs key | _ \<Rightarrow> None)"

text \<open>\<^verbatim>\<open>st?.key || dflt\<close>\<close>

definition prop_or :: "json \<Rightarrow> jsstring \<Rightarrow> json \<Rightarrow> json" where
  "prop_or st key dflt =
     (case get_prop st key of
        None \<Rightarrow> dflt
      | Some v \<Rightarrow> if truthy v then v else dflt)"

text \<open>
  The code units \<^verbatim>\<open>trim\<close> removes at both ends: the white space of ECMAScript (tab,
  vertical tab, form feed, space, no-break space, U+1680, U+2000 to U+200A, U+202F,
  U+205F, U+3000, U+FEFF) and its line terminators (line feed, carriage return, U+2028,
  U+2029).
\<close>

definition is_space :: "16 word \<Rightarrow> bool" where
  "is_space c =
     (c \<in> {0x9, 0xA, 0xB, 0xC, 0xD, 0x20, 0xA0, 0x1680, 0x2028, 0x2029, 0x202F, 0x205F,
            0x3000, 0xFEFF}
      \<or> (0x2000 \<le> c \<and> c \<le> 0x200A))"

definition trim :: "jsstring \<Rightarrow> jsstring" where
  "trim t = rev (dropWhile is_space (rev (dropWhile is_space t)))"

record peer =
  peer_id :: nat
  peer_name :: jsstring
  peer_color :: json

text \<open>
  The body of the \<^verbatim>\<open>forEach\<close> callback (lines 304--306): \<open>Inr None\<close> when it returns
  without a push, \<open>Inl TypeError\<close> when the name is a truthy value that is not a string
  and so has no \<^verbatim>\<open>trim\<close>.
\<close>

definition peer_of :: "('doc, 'aw) lib \<Rightarrow> nat \<times> json \<Rightarrow> error + peer option" where
  "peer_of L e =
     (case e of
        (cid, st) \<Rightarrow>
          (case prop_or st (ascii ''name'') (JStr []) of
             JStr t \<Rightarrow>
               (let n = trim t
                in if n = [] \<or> toLowerCase L n = ascii ''user'' \<or> toLowerCase L n = ascii ''guest''
                   then Inr None
                   else Inr (Some \<lparr>peer_id = cid, peer_name = n,
                                   peer_color = prop_or st (ascii ''color'') (JStr (ascii ''#999''))\<rparr>))
           | _ \<Rightarrow> Inl TypeError))"

fun peers_of ::
  "('doc, 'aw) lib \<Rightarrow> (nat \<times> json) list \<Rightarrow> peer list \<Rightarrow> error + peer list" where
  "peers_of L [] peers = Inr peers"
| "peers_of L (e # es) peers =
     (case peer_of L e of
        Inl err \<Rightarrow> Inl err
      | Inr None \<Rightarrow> peers_of L es peers
      | Inr (Some p) \<Rightarrow> peers_of L es (peers @ [p]))"

text \<open>
  The \<^verbatim>\<open>/api/rooms\<close> route (lines 298--311): the summary it sends, or the exception that
  leaves the handler.
\<close>

fun summarise ::
  "('doc, 'aw) lib \<Rightarrow> ('doc, 'aw) room list \<Rightarrow> (string \<times> nat) list \<Rightarrow> (string \<times> peer list) list
     \<Rightarrow> error + (string \<times> peer list) list" where
  "summarise L h [] summary = Inr summary"
| "summarise L h ((name, r) # es) summary =
     (case peers_of L (getStates L (awareness (h ! r))) [] of
        Inl err \<Rightarrow> Inl err
      | Inr peers \<Rightarrow> summarise L h es (summary @ [(name, peers)]))"

definition listRooms :: "('doc, 'aw) lib \<Rightarrow> ('doc, 'aw) server \<Rightarrow> error + (string \<times> peer list) list" where
  "listRooms L s = summarise L (heap s) (rooms s) []"

subsection \<open>A small instance of the parameter\<close>

text \<open>
  The theorems below hold for every \<open>lib\<close>.  To run the relay at a concrete input one
  instance is needed; this one is small.  A document is the list of bytes applied to it.
  An awareness is its Map of states.  An awareness update names one client: the client
  byte alone removes the client; the client byte, a zero byte and one more byte set the
  state \<^verbatim>\<open>{ name }\<close> with that byte as a number for the name; the client byte followed
  by any other bytes sets the state \<^verbatim>\<open>{ name }\<close> with those bytes as the code units of
  the name.  Lower-casing maps the letters A to Z and leaves every other code unit.

  The decoder is \<^verbatim>\<open>readVarUint\<close> of lib0: it adds seven bits a byte, returns at the first
  byte below 128, throws when the input ends before that, and throws when the number
  read so far is above \<^verbatim>\<open>Number.MAX_SAFE_INTEGER\<close> and the byte announces another.  It
  computes with exact numbers where lib0 computes with doubles, which is the same on
  every input of fewer than 147 bytes that it refuses or for which it returns a number
  below \<open>2^53\<close>.
\<close>

fun sample_readVarUint_from :: "nat \<Rightarrow> nat \<Rightarrow> byte list \<Rightarrow> (nat \<times> byte list) option" where
  "sample_readVarUint_from num mult [] = None"
| "sample_readVarUint_from num mult (b # bs) =
     (let num' = num + (unat b mod 128) * mult
      in if unat b < 128 then Some (num', bs)
         else if num' > 9007199254740991 then None
         else sample_readVarUint_from num' (mult * 128) bs)"

definition sample_readVarUint :: "byte list \<Rightarrow> (nat \<times> byte list) option" where
  "sample_readVarUint bs = sample_readVarUint_from 0 1 bs"

definition sample_readVarUint8Array :: "byte list \<Rightarrow> (byte list \<times> byte list) option" where
  "sample_readVarUint8Array bs =
     (case sample_readVarUint bs of
        None \<Rightarrow> None
      | Some (n, rest) \<Rightarrow> if n \<le> length rest then Some (take n rest, drop n rest) else None)"

definition sample_readSyncMessage :: "byte list \<Rightarrow> byte list \<Rightarrow> (byte list \<times> byte list) option" where
  "sample_readSyncMessage dec d =
     (case dec of
        [] \<Rightarrow> None
      | t # rest \<Rightarrow>
          if t = 0 then Some (1 # d, d)
          else if t = 1 \<or> t = 2 then Some ([], d @ rest)
          else None)"

definition sample_encodeAwarenessUpdate :: "(nat \<times> json) list \<Rightarrow> nat list \<Rightarrow> byte list" where
  "sample_encodeAwarenessUpdate a ids =
     concat (map (\<lambda>i. [word_of_nat i, if map_of a i = None then 0 else 1]) ids)"

definition sample_applyAwarenessUpdate ::
  "(nat \<times> json) list \<Rightarrow> byte list \<Rightarrow> ((nat \<times> json) list \<times> changes option) option" where
  "sample_applyAwarenessUpdate a upd =
     (case upd of
        [] \<Rightarrow> None
      | c # name \<Rightarrow>
          (let cid = unat c;
               st = JObj [(ascii ''name'',
                           (case name of
                              [z, n] \<Rightarrow>
                                if z = 0 then JNum (real (unat n))
                                else JStr (map (\<lambda>b. word_of_nat (unat b)) name)
                            | _ \<Rightarrow> JStr (map (\<lambda>b. word_of_nat (unat b)) name)))]
           in if name = [] then
                (if map_of a cid = None then Some (a, None)
                 else Some (filter (\<lambda>e. fst e \<noteq> cid) a,
                            Some \<lparr>added = [], updated = [], removed = [cid]\<rparr>))
              else if map_of a cid = None then
                Some (a @ [(cid, st)], Some \<lparr>added = [cid], updated = [], removed = []\<rparr>)
              else
                Some (map (\<lambda>e. if fst e = cid then (cid, st) else e) a,
                      Some \<lparr>added = [], updated = [cid], removed = []\<rparr>)))"

definition sample_toLowerCase :: "jsstring \<Rightarrow> jsstring" where
  "sample_toLowerCase t = map (\<lambda>c. if 0x41 \<le> c \<and> c \<le> 0x5A then c + 0x20 else c) t"

definition sample_lib :: "(byte list, (nat \<times> json) list) lib" where
  "sample_lib =
     \<lparr>readVarUint = sample_readVarUint,
      readVarUint8Array = sample_readVarUint8Array,
      newDoc = (\<lambda>n. []),
      newAwareness = (\<lambda>d. [(0, JObj [])]),
      writeSyncStep1 = (\<lambda>d. [0, word_of_nat (length d)]),
      readSyncMessage = sample_readSyncMessage,
      encodeAwarenessUpdate = sample_encodeAwarenessUpdate,
      applyAwarenessUpdate = sample_applyAwarenessUpdate,
      getStates = (\<lambda>a. a),
      toLowerCase = sample_toLowerCase\<rparr>"

subsection \<open>Notions the properties are stated with\<close>

text \<open>The messages sent between an earlier state and a later one.\<close>

definition sent_since :: "('doc, 'aw) server \<Rightarrow> ('doc, 'aw) server \<Rightarrow> (ws \<times> byte list) list" where
  "sent_since s s' = drop (length (outbox s)) (outbox s')"

text \<open>Every stored room reference points into the heap, and no name is stored twice.\<close>

definition wf_server :: "('doc, 'aw) server \<Rightarrow> bool" where
  "wf_server s = (list_all (\<lambda>e. snd e < length (heap s)) (rooms s) \<and> distinct (map fst (rooms s)))"

text \<open>The message the awareness listener builds for an event, given the awareness it reads.\<close>

definition awareness_frame :: "('doc, 'aw) lib \<Rightarrow> 'aw \<Rightarrow> changes \<Rightarrow> byte list" where
  "awareness_frame L a ev =
     writeVarUint MSG_AWARENESS
     @ writeVarUint8Array (encodeAwarenessUpdate L a (added ev @ updated ev @ removed ev))"

text \<open>A sequence of connections, each bound in turn; the room references they are bound to.\<close>

fun bindAll ::
  "('doc, 'aw) lib \<Rightarrow> (ws \<times> string) list \<Rightarrow> ('doc, 'aw) server \<Rightarrow> nat list \<times> ('doc, 'aw) server" where
  "bindAll L [] s = ([], s)"
| "bindAll L ((w, name) # cs) s =
     (case onWSConnection L w name s of
        (r, s1) \<Rightarrow> (case bindAll L cs s1 of (rs, s2) \<Rightarrow> (r # rs, s2)))"

text \<open>The transport moves a socket to the closing state; the relay's code has no part in it.\<close>

definition transport_closing :: "ws \<Rightarrow> ('doc, 'aw) server \<Rightarrow> ('doc, 'aw) server" where
  "transport_closing w s = s\<lparr>readyState := (readyState s)(w := CLOSING)\<rparr>"

text \<open>
  The room directory as the specification words it: the display name of an entry is its
  trimmed name, a placeholder is an empty display name or one that is \<^verbatim>\<open>user\<close> or
  \<^verbatim>\<open>guest\<close> once the engine has lower-cased it, and the directory lists, for every room of
  the registry, the entries that are no placeholders as \<^verbatim>\<open>{ id, name, color }\<close>.
\<close>

definition name_is_text :: "json \<Rightarrow> bool" where
  "name_is_text st = (case prop_or st (ascii ''name'') (JStr []) of JStr _ \<Rightarrow> True | _ \<Rightarrow> False)"

definition spec_display_name :: "json \<Rightarrow> jsstring" where
  "spec_display_name st = (case prop_or st (ascii ''name'') (JStr []) of JStr t \<Rightarrow> trim t | _ \<Rightarrow> [])"

definition spec_placeholder :: "('doc, 'aw) lib \<Rightarrow> jsstring \<Rightarrow> bool" where
  "spec_placeholder L n =
     (n = [] \<or> toLowerCase L n = ascii ''user'' \<or> toLowerCase L n = ascii ''guest'')"

definition spec_triple :: "nat \<times> json \<Rightarrow> peer" where
  "spec_triple e =
     \<lparr>peer_id = fst e, peer_name = spec_display_name (snd e),
      peer_color = prop_or (snd e) (ascii ''color'') (JStr (ascii ''#999''))\<rparr>"

definition spec_peers :: "('doc, 'aw) lib \<Rightarrow> (nat \<times> json) list \<Rightarrow> peer list" where
  "spec_peers L sts =
     map spec_triple (filter (\<lambda>e. \<not> spec_placeholder L (spec_display_name (snd e))) sts)"

definition spec_listRooms :: "('doc, 'aw) lib \<Rightarrow> ('doc, 'aw) server \<Rightarrow> (string \<times> peer list) list" where
  "spec_listRooms L s =
     map (\<lambda>e. (fst e, spec_peers L (getStates L (awareness (heap s ! snd e))))) (rooms s)"

text \<open>
  Every display name the directory reads is a string, or is missing or falsy: the type
  the data model gives a presence entry.
\<close>

definition presence_well_typed :: "('doc, 'aw) lib \<Rightarrow> ('doc, 'aw) server \<Rightarrow> bool" where
  "presence_well_typed L s =
     list_all (\<lambda>e. list_all (\<lambda>st. name_is_text (snd st)) (getStates L (awareness (heap s ! snd e))))
       (rooms s)"

subsection \<open>A session of the relay\<close>

text \<open>
  The server after start, and the state \<open>example_state\<close> it reaches when sockets 1, 2 and 3
  have joined the room \<^verbatim>\<open>studio-123\<close>, socket 1 has announced the client 7 under the name
  \<^verbatim>\<open>Alice\<close>, and the transport has begun to close socket 3.
\<close>

definition init_server :: "(byte list, (nat \<times> json) list) server" where
  "init_server = \<lparr>heap = [], rooms = [], readyState = (\<lambda>w. OPEN), outbox = []\<rparr>"

definition example_state :: "(byte list, (nat \<times> json) list) server" where
  "example_state =
     \<lparr>heap = [\<lparr>doc = [],
               awareness = [(0, JObj []), (7, JObj [(ascii ''name'', JStr (ascii ''Alice''))])],
               conns = [1, 2, 3]\<rparr>],
      rooms = [(''studio-123'', 0)],
      readyState = (\<lambda>w. OPEN)(3 := CLOSING),
      outbox = [(1, [0, 0, 0]), (1, [1, 2, 0, 1]), (2, [0, 0, 0]), (2, [1, 2, 0, 1]),
                (3, [0, 0, 0]), (3, [1, 2, 0, 1]), (2, [1, 2, 7, 1]), (3, [1, 2, 7, 1])]\<rparr>"

text \<open>\<open>example_state\<close> after socket 1 has renamed client 7.\<close>

definition example_renamed :: "(byte list, (nat \<times> json) list) server" where
  "example_renamed =
     example_state
       \<lparr>heap := [\<lparr>doc = [],
                  awareness = [(0, JObj []), (7, JObj [(ascii ''name'', JStr (ascii ''B''))])],
                  conns = [1, 2, 3]\<rparr>],
        outbox := outbox example_state @ [(2, [1, 2, 7, 1])]\<rparr>"

text \<open>\<open>example_state\<close> after socket 2 has announced client 8 with the number 5 for a name.\<close>

definition example_numeric :: "(byte list, (nat \<times> json) list) server" where
  "example_numeric =
     example_state
       \<lparr>heap := [\<lparr>doc = [],
                  awareness = [(0, JObj []), (7, JObj [(ascii ''name'', JStr (ascii ''Alice''))]),
                               (8, JObj [(ascii ''name'', JNum 5)])],
                  conns = [1, 2, 3]\<rparr>],
        outbox := outbox example_state @ [(1, [1, 2, 8, 1])]\<rparr>"

text \<open>A registry of two rooms, with placeholder entries among the named ones.\<close>

definition directory_state :: "(byte list, (nat \<times> json) list) server" where
  "directory_state =
     \<lparr>heap = [\<lparr>doc = [],
               awareness = [(0, JObj []),
                            (7, JObj [(ascii ''name'', JStr (ascii ''  Alice '')), (ascii ''color'', JStr (ascii ''#ff0000''))]),
                            (8, JObj [(ascii ''name'', JStr (ascii ''USER''))]),
                            (9, JObj [(ascii ''name'', JStr (ascii '' Guest ''))]),
                            (10, JObj [(ascii ''name'', JStr (ascii ''Bob'')), (ascii ''color'', JNull)]),
                            (11, JObj [(ascii ''name'', JStr (ascii ''user''))]),
                            (12, JObj [(ascii ''name'', JStr (ascii ''   ''))])],
               conns = [1, 2]\<rparr>,
              \<lparr>doc = [], awareness = [(0, JObj [])], conns = []\<rparr>],
      rooms = [(''studio-123'', 0), (''lobby'', 1)],
      readyState = (\<lambda>w. OPEN),
      outbox = []\<rparr>"

section \<open>Properties\<close>

subsection \<open>Framing and state lemmas\<close>

lemma writeVarUint_MSG_SYNC: "writeVarUint MSG_SYNC = [0]"
  by (simp add: MSG_SYNC_def writeVarUint.simps)

lemma writeVarUint_MSG_AWARENESS: "writeVarUint MSG_AWARENESS = [1]"
  by (simp add: MSG_AWARENESS_def writeVarUint.simps)

lemma send_fields:
  "outbox (send w buf s) = outbox s @ [(w, buf)]"
  "heap (send w buf s) = heap s"
  "rooms (send w buf s) = rooms s"
  "readyState (send w buf s) = readyState s"
  by (simp_all add: send_def)

lemma update_room_fields:
  "outbox (update_room r f s) = outbox s"
  "heap (update_room r f s) = (heap s)[r := f (heap s ! r)]"
  "rooms (update_room r f s) = rooms s"
  "readyState (update_room r f s) = readyState s"
  by (simp_all add: update_room_def)

lemma broadcast_frame:
  "heap (broadcast orig buf cs s) = heap s \<and>
   rooms (broadcast orig buf cs s) = rooms s \<and>
   readyState (broadcast orig buf cs s) = readyState s"
  by (induction cs arbitrary: s) (simp_all add: send_fields)

lemma broadcast_outbox:
  "outbox (broadcast orig buf cs s) =
     outbox s @ map (\<lambda>w. (w, buf)) (filter (\<lambda>w. Ws w \<noteq> orig \<and> readyState s w = OPEN) cs)"
  by (induction cs arbitrary: s) (simp_all add: send_fields)

lemma sent_since_append: "outbox s' = outbox s @ ms \<Longrightarrow> sent_since s s' = ms"
  by (simp add: sent_since_def)

lemma MSG_distinct: "MSG_AWARENESS \<noteq> MSG_SYNC"
  by (simp add: MSG_SYNC_def MSG_AWARENESS_def)

lemma onAwarenessUpdate_outbox:
  "outbox (onAwarenessUpdate L r ev orig s) =
     outbox s @ map (\<lambda>c. (c, awareness_frame L (awareness (heap s ! r)) ev))
                  (filter (\<lambda>c. Ws c \<noteq> orig \<and> readyState s c = OPEN) (conns (heap s ! r)))"
  by (simp add: onAwarenessUpdate_def Let_def broadcast_outbox awareness_frame_def)

lemma onAwarenessUpdate_frame:
  "heap (onAwarenessUpdate L r ev orig s) = heap s \<and>
   rooms (onAwarenessUpdate L r ev orig s) = rooms s \<and>
   readyState (onAwarenessUpdate L r ev orig s) = readyState s"
  by (simp add: onAwarenessUpdate_def Let_def broadcast_frame)

subsection \<open>The session is a run of the relay\<close>

lemma sample_lib_fields:
  "readVarUint sample_lib = sample_readVarUint"
  "readVarUint8Array sample_lib = sample_readVarUint8Array"
  "newDoc sample_lib = (\<lambda>n. [])"
  "newAwareness sample_lib = (\<lambda>d. [(0, JObj [])])"
  "writeSyncStep1 sample_lib = (\<lambda>d. [0, word_of_nat (length d)])"
  "readSyncMessage sample_lib = sample_readSyncMessage"
  "encodeAwarenessUpdate sample_lib = sample_encodeAwarenessUpdate"
  "applyAwarenessUpdate sample_lib = sample_applyAwarenessUpdate"
  "getStates sample_lib = (\<lambda>a. a)"
  "toLowerCase sample_lib = sample_toLowerCase"
  by (simp_all add: sample_lib_def)

lemma writeVarUint_small: "n \<le> 127 \<Longrightarrow> writeVarUint n = [word_of_nat n]"
  by (simp add: writeVarUint.simps)

lemmas run_simps =
  onWSConnection_def getRoom_def update_room_def Set_add_def Set_delete_def sendSync_def
  sendFullAwareness_def send_def onMessage_def onAwarenessUpdate_def onClose_def
  sample_lib_fields sample_readVarUint_def sample_readVarUint8Array_def
  sample_readSyncMessage_def sample_encodeAwarenessUpdate_def sample_applyAwarenessUpdate_def
  writeVarUint8Array_def writeVarUint_small MSG_SYNC_def MSG_AWARENESS_def Let_def
  sent_since_def transport_closing_def ascii_def

lemma example_state_reached:
  "map_sum id (transport_closing 3)
     (onMessage sample_lib 1 0 [1, 6, 7, 65, 108, 105, 99, 101]
        (snd (onWSConnection sample_lib 3 ''studio-123''
          (snd (onWSConnection sample_lib 2 ''studio-123''
            (snd (onWSConnection sample_lib 1 ''studio-123'' init_server)))))))
   = Inr example_state"
  by (simp add: run_simps init_server_def example_state_def)

subsection \<open>Unknown message kinds\<close>

text \<open>
  A tag that the decoder returns and that is neither the sync kind 0 nor the awareness
  kind 1 takes no branch of the listener: it returns normally with the server state as
  it was.
\<close>

lemma unknown_tag_noop:
  assumes "readVarUint L data = Some (t, dec)" and "t \<noteq> MSG_SYNC" and "t \<noteq> MSG_AWARENESS"
  shows "onMessage L w r data s = Inr s"
  using assms by (simp add: onMessage_def)

lemma unknown_tag_noop_witness:
  "readVarUint sample_lib [2, 9] = Some (2, [9]) \<and> (2::nat) \<noteq> MSG_SYNC \<and>
   (2::nat) \<noteq> MSG_AWARENESS \<and>
   onMessage sample_lib 1 0 [2, 9] example_state = Inr example_state"
proof -
  have a: "readVarUint sample_lib [2, 9] = Some (2, [9])"
    by (simp add: sample_lib_fields sample_readVarUint_def)
  have b: "(2::nat) \<noteq> MSG_SYNC" and c: "(2::nat) \<noteq> MSG_AWARENESS"
    by (simp_all add: MSG_SYNC_def MSG_AWARENESS_def)
  from unknown_tag_noop [OF a b c] a b c show ?thesis by simp
qed

text \<open>
  The listener reads the tag outside any \<^verbatim>\<open>try\<close>: when the decoder throws, the exception
  leaves the listener.
\<close>

lemma undecodable_tag_throws:
  "readVarUint L data = None \<Longrightarrow> onMessage L w r data s = Inl DecodeError"
  by (simp add: onMessage_def)

text \<open>
  Claim C8 says that every message whose leading tag is neither 0 nor 1 is a no-op that
  leaves the connection open.  The code breaks it at a message whose tag is the nine-byte
  number \<open>2^57 - 1\<close>: after the eighth byte the number read is above
  \<^verbatim>\<open>Number.MAX_SAFE_INTEGER\<close>, the decoder throws, and the exception leaves the listener
  uncaught instead of the message being dropped.
\<close>

theorem overlong_tag_throws:
  "readVarUint sample_lib [255, 255, 255, 255, 255, 255, 255, 255, 1] = None \<and>
   onMessage sample_lib 1 0 [255, 255, 255, 255, 255, 255, 255, 255, 1] example_state
     = Inl DecodeError"
  by (simp add: onMessage_def sample_lib_fields sample_readVarUint_def)

subsection \<open>Closing a connection\<close>

text \<open>
  Claim C9.  The close listener changes the connection set of its room only, deleting
  the closed handle.  The connection set of every other room, the document and the
  awareness of every room, the registry, the sockets' states and the record of sent
  messages are as before: the close path applies no awareness removal and broadcasts
  nothing.
\<close>

theorem close_changes_conns_only:
  assumes "r < length (heap s)"
  shows "conns (heap (onClose w r s) ! r) = Set_delete w (conns (heap s ! r)) \<and>
         map conns (heap (onClose w r s))
           = (map conns (heap s))[r := Set_delete w (conns (heap s ! r))] \<and>
         (\<forall>r'. r' \<noteq> r \<longrightarrow> heap (onClose w r s) ! r' = heap s ! r') \<and>
         length (heap (onClose w r s)) = length (heap s) \<and>
         map doc (heap (onClose w r s)) = map doc (heap s) \<and>
         map awareness (heap (onClose w r s)) = map awareness (heap s) \<and>
         rooms (onClose w r s) = rooms s \<and>
         outbox (onClose w r s) = outbox s \<and>
         readyState (onClose w r s) = readyState s"
  using assms by (simp add: onClose_def update_room_fields map_update list_update_same_conv)

theorem close_changes_conns_only_witness:
  "0 < length (heap (snd (onWSConnection sample_lib 5 ''lobby'' example_state))) \<and>
   map conns (heap (snd (onWSConnection sample_lib 5 ''lobby'' example_state)))
     = [[1, 2, 3], [5]] \<and>
   map conns (heap (onClose 3 0 (snd (onWSConnection sample_lib 5 ''lobby'' example_state))))
     = [[1, 2], [5]] \<and>
   map awareness (heap (onClose 3 0 (snd (onWSConnection sample_lib 5 ''lobby'' example_state))))
     = [[(0, JObj []), (7, JObj [(ascii ''name'', JStr (ascii ''Alice''))])], [(0, JObj [])]] \<and>
   outbox (onClose 3 0 (snd (onWSConnection sample_lib 5 ''lobby'' example_state)))
     = outbox (snd (onWSConnection sample_lib 5 ''lobby'' example_state))"
proof -
  have a: "0 < length (heap (snd (onWSConnection sample_lib 5 ''lobby'' example_state)))"
    by (simp add: run_simps example_state_def)
  have b: "map conns (heap (snd (onWSConnection sample_lib 5 ''lobby'' example_state)))
     = [[1, 2, 3], [5]]"
    by (simp add: run_simps example_state_def)
  have c: "map awareness (heap (snd (onWSConnection sample_lib 5 ''lobby'' example_state)))
     = [[(0, JObj []), (7, JObj [(ascii ''name'', JStr (ascii ''Alice''))])], [(0, JObj [])]]"
    by (simp add: run_simps example_state_def)
  have d: "conns (heap (snd (onWSConnection sample_lib 5 ''lobby'' example_state)) ! 0)
     = [1, 2, 3]"
    by (simp add: run_simps example_state_def)
  from close_changes_conns_only [OF a, of 3] a b c d show ?thesis
    by (simp add: Set_delete_def)
qed

subsection \<open>Document synchronisation\<close>

text \<open>
  Claim C5.  A sync-kind message from connection \<open>w\<close> bound to room \<open>r\<close> is applied to the
  document of \<open>r\<close>.  When applying it writes a response, the response goes to \<open>w\<close> in one
  message; when it writes none, nothing is sent.  No message of the step is addressed to
  a connection other than \<open>w\<close>.
\<close>

theorem sync_reply_to_sender_only:
  assumes "readVarUint L data = Some (MSG_SYNC, dec)"
    and "readSyncMessage L dec (doc (heap s ! r)) = Some (written, d')"
    and "r < length (heap s)"
  shows "\<exists>s'. onMessage L w r data s = Inr s' \<and>
              doc (heap s' ! r) = d' \<and>
              sent_since s s' =
                (if written \<noteq> [] then [(w, writeVarUint MSG_SYNC @ written)] else []) \<and>
              fst ` set (sent_since s s') \<subseteq> {w}"
  using assms
  by (auto simp add: onMessage_def Let_def writeVarUint_MSG_SYNC send_fields update_room_fields
      sent_since_def)

theorem sync_reply_to_sender_only_witness:
  "readVarUint sample_lib [0, 0] = Some (MSG_SYNC, [0]) \<and>
   readSyncMessage sample_lib [0] (doc (heap example_state ! 0)) = Some ([1], []) \<and>
   0 < length (heap example_state) \<and>
   onMessage sample_lib 2 0 [0, 0] example_state
     = Inr (example_state\<lparr>outbox := outbox example_state @ [(2, [0, 1])]\<rparr>)"
proof -
  have a: "readVarUint sample_lib [0, 0] = Some (MSG_SYNC, [0])"
    by (simp add: run_simps)
  have b: "readSyncMessage sample_lib [0] (doc (heap example_state ! 0)) = Some ([1], [])"
    by (simp add: run_simps example_state_def)
  have c: "0 < length (heap example_state)"
    by (simp add: example_state_def)
  have d: "onMessage sample_lib 2 0 [0, 0] example_state
     = Inr (example_state\<lparr>outbox := outbox example_state @ [(2, [0, 1])]\<rparr>)"
    using sync_reply_to_sender_only [OF a b c, of 2]
    by (simp add: run_simps example_state_def)
  from a b c d show ?thesis by simp
qed

subsection \<open>Presence fan-out\<close>

text \<open>
  Claim C10.  The fan-out of an awareness event over the connection set of a room sends
  the encoded delta exactly to the connections of the set that are not the origin and
  whose socket is in the OPEN state.  A connection in any other state that is still in
  the set gets nothing, every other open connection still gets the delta, and the
  fan-out changes nothing but the record of sent messages.
\<close>

theorem fanout_open_only:
  "sent_since s (onAwarenessUpdate L r ev orig s) =
     map (\<lambda>c. (c, awareness_frame L (awareness (heap s ! r)) ev))
       (filter (\<lambda>c. Ws c \<noteq> orig \<and> readyState s c = OPEN) (conns (heap s ! r))) \<and>
   (\<forall>c. readyState s c \<noteq> OPEN \<longrightarrow>
      c \<notin> fst ` set (sent_since s (onAwarenessUpdate L r ev orig s))) \<and>
   (\<forall>c \<in> set (conns (heap s ! r)). Ws c \<noteq> orig \<and> readyState s c = OPEN \<longrightarrow>
      (c, awareness_frame L (awareness (heap s ! r)) ev)
        \<in> set (sent_since s (onAwarenessUpdate L r ev orig s))) \<and>
   heap (onAwarenessUpdate L r ev orig s) = heap s \<and>
   rooms (onAwarenessUpdate L r ev orig s) = rooms s \<and>
   readyState (onAwarenessUpdate L r ev orig s) = readyState s"
  by (auto simp add: sent_since_def onAwarenessUpdate_outbox onAwarenessUpdate_frame)

theorem fanout_open_only_witness:
  "readyState example_state 3 \<noteq> OPEN \<and> 3 \<in> set (conns (heap example_state ! 0)) \<and>
   sent_since example_state
     (onAwarenessUpdate sample_lib 0 \<lparr>added = [], updated = [7], removed = []\<rparr> (Token ''timeout'')
        example_state)
     = [(1, [1, 2, 7, 1]), (2, [1, 2, 7, 1])]"
  using fanout_open_only [of example_state sample_lib 0
      "\<lparr>added = [], updated = [7], removed = []\<rparr>" "Token ''timeout''"]
  by (simp add: run_simps awareness_frame_def example_state_def)

text \<open>
  Claim C1, as amended.  When connection \<open>w\<close> bound to room \<open>r\<close> sends a presence delta,
  it is applied to the presence set of \<open>r\<close> with \<open>w\<close> as origin.  If the presence set
  notifies a change, the encoded delta of the added, updated and removed clients is sent
  to every connection of the room's connection set that is in the OPEN state and is not
  \<open>w\<close>, and to no one else; without a notification nothing is sent.  In either case \<open>w\<close>
  gets no message of the step.
\<close>

theorem presence_delta_fanout:
  assumes "readVarUint L data = Some (MSG_AWARENESS, dec)"
    and "readVarUint8Array L dec = Some (upd, dec')"
    and "applyAwarenessUpdate L (awareness (heap s ! r)) upd = Some (a', evo)"
    and "r < length (heap s)"
  shows "\<exists>s'. onMessage L w r data s = Inr s' \<and>
              awareness (heap s' ! r) = a' \<and>
              sent_since s s' =
                (case evo of
                   None \<Rightarrow> []
                 | Some ev \<Rightarrow>
                     map (\<lambda>c. (c, awareness_frame L a' ev))
                       (filter (\<lambda>c. c \<noteq> w \<and> readyState s c = OPEN) (conns (heap s ! r)))) \<and>
              w \<notin> fst ` set (sent_since s s')"
  using assms
  by (cases evo)
    (auto simp add: onMessage_def Let_def MSG_distinct onAwarenessUpdate_outbox
      onAwarenessUpdate_frame update_room_fields sent_since_def)

theorem presence_delta_fanout_witness:
  "readVarUint sample_lib [1, 2, 7, 66] = Some (MSG_AWARENESS, [2, 7, 66]) \<and>
   readVarUint8Array sample_lib [2, 7, 66] = Some ([7, 66], []) \<and>
   applyAwarenessUpdate sample_lib (awareness (heap example_state ! 0)) [7, 66]
     = Some ([(0, JObj []), (7, JObj [(ascii ''name'', JStr (ascii ''B''))])],
             Some \<lparr>added = [], updated = [7], removed = []\<rparr>) \<and>
   0 < length (heap example_state) \<and>
   onMessage sample_lib 1 0 [1, 2, 7, 66] example_state = Inr example_renamed"
proof -
  have a: "readVarUint sample_lib [1, 2, 7, 66] = Some (MSG_AWARENESS, [2, 7, 66])"
    by (simp add: run_simps)
  have b: "readVarUint8Array sample_lib [2, 7, 66] = Some ([7, 66], [])"
    by (simp add: run_simps)
  have c: "applyAwarenessUpdate sample_lib (awareness (heap example_state ! 0)) [7, 66]
     = Some ([(0, JObj []), (7, JObj [(ascii ''name'', JStr (ascii ''B''))])],
             Some \<lparr>added = [], updated = [7], removed = []\<rparr>)"
    by (simp add: run_simps example_state_def)
  have d: "0 < length (heap example_state)"
    by (simp add: example_state_def)
  have e: "onMessage sample_lib 1 0 [1, 2, 7, 66] example_state = Inr example_renamed"
    using presence_delta_fanout [OF a b c d, of 1]
    by (simp add: run_simps example_state_def example_renamed_def)
  from a b c d e show ?thesis by simp
qed

text \<open>
  Claim C1 as it is stated fails: in \<open>example_state\<close> socket 3 is in the connection set
  of the room and is not the sender 1, yet the delta of socket 1's update is sent to
  socket 2 alone, because socket 3 is not in the OPEN state.
\<close>

theorem presence_delta_to_all_counterexample:
  "onMessage sample_lib 1 0 [1, 2, 7, 66] example_state = Inr example_renamed \<and>
   sent_since example_state example_renamed = [(2, [1, 2, 7, 1])] \<and>
   3 \<in> set (conns (heap example_state ! 0)) \<and> (3::nat) \<noteq> 1 \<and>
   3 \<notin> fst ` set (sent_since example_state example_renamed)"
  by (simp add: run_simps example_state_def example_renamed_def)

subsection \<open>The registry\<close>

lemma getRoom_existing: "map_of (rooms s) name = Some r \<Longrightarrow> getRoom L name s = (r, s)"
  by (simp add: getRoom_def)

lemma getRoom_new:
  "map_of (rooms s) name = None \<Longrightarrow>
   getRoom L name s =
     (length (heap s),
      s\<lparr>heap := heap s @ [\<lparr>doc = newDoc L (length (heap s)),
                            awareness = newAwareness L (newDoc L (length (heap s))),
                            conns = []\<rparr>],
        rooms := rooms s @ [(name, length (heap s))]\<rparr>)"
  by (simp add: getRoom_def Let_def)

lemma getRoom_lookup: "getRoom L name s = (r, s') \<Longrightarrow> map_of (rooms s') name = Some r"
  by (cases "map_of (rooms s) name") (auto simp add: getRoom_new getRoom_existing map_add_def)

lemma getRoom_twice: "getRoom L name (snd (getRoom L name s)) = getRoom L name s"
proof -
  obtain r s' where g: "getRoom L name s = (r, s')" by (cases "getRoom L name s")
  from getRoom_lookup [OF g] have "getRoom L name s' = (r, s')" by (rule getRoom_existing)
  with g show ?thesis by simp
qed

lemma wf_lookup: "wf_server s \<Longrightarrow> map_of (rooms s) name = Some r \<Longrightarrow> r < length (heap s)"
  by (auto simp add: wf_server_def list_all_iff dest: map_of_SomeD)

lemma wf_fresh: "wf_server s \<Longrightarrow> length (heap s) \<notin> snd ` set (rooms s)"
  by (auto simp add: wf_server_def list_all_iff)

lemma getRoom_wf: "wf_server s \<Longrightarrow> getRoom L name s = (r, s') \<Longrightarrow> wf_server s'"
proof (cases "map_of (rooms s) name")
  case None
  assume wf: "wf_server s" and g: "getRoom L name s = (r, s')"
  from None have "name \<notin> fst ` set (rooms s)" by (simp add: map_of_eq_None_iff)
  with wf g None show ?thesis
    by (fastforce simp add: getRoom_new wf_server_def list_all_iff intro: less_SucI)
next
  case (Some r0)
  assume "wf_server s" and "getRoom L name s = (r, s')"
  with Some show ?thesis by (simp add: getRoom_existing)
qed

lemma getRoom_keeps:
  "map_of (rooms s) n = Some r0 \<Longrightarrow> map_of (rooms (snd (getRoom L name s))) n = Some r0"
  by (cases "map_of (rooms s) name") (auto simp add: getRoom_new getRoom_existing map_add_def)

lemma getRoom_outbox: "outbox (snd (getRoom L name s)) = outbox s"
  by (cases "map_of (rooms s) name") (auto simp add: getRoom_new getRoom_existing)

lemma getRoom_old_rooms:
  "i < length (heap s) \<Longrightarrow> heap (snd (getRoom L name s)) ! i = heap s ! i"
  by (cases "map_of (rooms s) name") (auto simp add: getRoom_new getRoom_existing nth_append)

lemma getRoom_length: "length (heap s) \<le> length (heap (snd (getRoom L name s)))"
  by (cases "map_of (rooms s) name") (auto simp add: getRoom_new getRoom_existing)

text \<open>\<^verbatim>\<open>onWSConnection\<close> in terms of the room \<^verbatim>\<open>getRoom\<close> returns.\<close>

lemma onWSConnection_eq:
  "getRoom L name s = (r, s1) \<Longrightarrow>
   onWSConnection L w name s =
     (r, (update_room r (\<lambda>rm. rm\<lparr>conns := Set_add w (conns rm)\<rparr>) s1)
           \<lparr>outbox := outbox s1 @
              [(w, writeVarUint MSG_SYNC @ writeSyncStep1 L (doc (heap s1 ! r))),
               (w, writeVarUint MSG_AWARENESS @ writeVarUint8Array
                     (encodeAwarenessUpdate L (awareness (heap s1 ! r))
                        (map fst (getStates L (awareness (heap s1 ! r))))))]\<rparr>)"
proof (cases "r < length (heap s1)")
  case True
  assume "getRoom L name s = (r, s1)"
  with True show ?thesis
    by (simp add: onWSConnection_def Let_def sendSync_def sendFullAwareness_def send_def
        update_room_def)
next
  case False
  assume "getRoom L name s = (r, s1)"
  with False show ?thesis
    by (simp add: onWSConnection_def Let_def sendSync_def sendFullAwareness_def send_def
        update_room_def list_update_beyond)
qed

lemma onWSConnection_wf:
  assumes "wf_server s" and "onWSConnection L w name s = (r, s')"
  shows "wf_server s'"
proof -
  obtain r1 s1 where g: "getRoom L name s = (r1, s1)" by (cases "getRoom L name s")
  from getRoom_wf [OF assms(1) g] have "wf_server s1" .
  with assms(2) onWSConnection_eq [OF g, of w] show ?thesis
    by (auto simp add: wf_server_def update_room_def)
qed

lemma onWSConnection_keeps:
  "map_of (rooms s) n = Some r0 \<Longrightarrow> map_of (rooms (snd (onWSConnection L w name s))) n = Some r0"
proof -
  assume a: "map_of (rooms s) n = Some r0"
  obtain r1 s1 where g: "getRoom L name s = (r1, s1)" by (cases "getRoom L name s")
  from getRoom_keeps [OF a, of L name] g have "map_of (rooms s1) n = Some r0" by simp
  with onWSConnection_eq [OF g, of w] show ?thesis
    by (simp add: update_room_def)
qed

lemma onWSConnection_lookup:
  "onWSConnection L w name s = (r, s') \<Longrightarrow> map_of (rooms s') name = Some r"
proof -
  assume a: "onWSConnection L w name s = (r, s')"
  obtain r1 s1 where g: "getRoom L name s = (r1, s1)" by (cases "getRoom L name s")
  from getRoom_lookup [OF g] a onWSConnection_eq [OF g, of w] show ?thesis
    by (auto simp add: update_room_def)
qed

lemma bindAll_rooms:
  "wf_server s \<Longrightarrow> bindAll L cs s = (rs, s') \<Longrightarrow>
   wf_server s' \<and> length rs = length cs \<and>
   (\<forall>n r0. map_of (rooms s) n = Some r0 \<longrightarrow> map_of (rooms s') n = Some r0) \<and>
   (\<forall>i<length cs. map_of (rooms s') (snd (cs ! i)) = Some (rs ! i))"
proof (induction cs arbitrary: s rs s')
  case Nil
  then show ?case by simp
next
  case (Cons c cs)
  obtain w name where c: "c = (w, name)" by (cases c)
  obtain r s1 where b: "onWSConnection L w name s = (r, s1)"
    by (cases "onWSConnection L w name s")
  obtain rs1 s2 where t: "bindAll L cs s1 = (rs1, s2)" by (cases "bindAll L cs s1")
  from Cons.prems(2) c b t have eq: "rs = r # rs1" "s' = s2" by simp_all
  from onWSConnection_wf [OF Cons.prems(1) b] have wf1: "wf_server s1" .
  from Cons.IH [OF wf1 t] have ih:
    "wf_server s2" "length rs1 = length cs"
    "\<forall>n r0. map_of (rooms s1) n = Some r0 \<longrightarrow> map_of (rooms s2) n = Some r0"
    "\<forall>i<length cs. map_of (rooms s2) (snd (cs ! i)) = Some (rs1 ! i)"
    by simp_all
  have keep: "\<forall>n r0. map_of (rooms s) n = Some r0 \<longrightarrow> map_of (rooms s2) n = Some r0"
    using onWSConnection_keeps [of s _ _ L w name] b ih(3) by auto
  have head: "map_of (rooms s2) name = Some r"
    using onWSConnection_lookup [OF b] ih(3) by simp
  have "\<forall>i<length (c # cs). map_of (rooms s2) (snd ((c # cs) ! i)) = Some ((r # rs1) ! i)"
  proof (intro allI impI)
    fix i assume "i < length (c # cs)"
    then show "map_of (rooms s2) (snd ((c # cs) ! i)) = Some ((r # rs1) ! i)"
      using head ih(4) c by (cases i) simp_all
  qed
  with ih(1,2) keep eq show ?case by simp
qed

lemma getRoom_bound:
  "wf_server s \<Longrightarrow> getRoom L name s = (r, s') \<Longrightarrow> r < length (heap s')"
  using getRoom_wf [of s L name r s'] getRoom_lookup [of L name s r s'] wf_lookup [of s' name r]
  by simp

lemma onWSConnection_member:
  assumes "wf_server s" and "onWSConnection L w name s = (r, s')"
  shows "r < length (heap s') \<and> w \<in> set (conns (heap s' ! r))"
proof -
  obtain r1 s1 where g: "getRoom L name s = (r1, s1)" by (cases "getRoom L name s")
  from getRoom_bound [OF assms(1) g] have "r1 < length (heap s1)" .
  with assms(2) onWSConnection_eq [OF g, of w] show ?thesis
    by (auto simp add: update_room_def Set_add_def)
qed

lemma onWSConnection_conns_mono:
  assumes "r0 < length (heap s)" and "c \<in> set (conns (heap s ! r0))"
  shows "r0 < length (heap (snd (onWSConnection L w name s))) \<and>
         c \<in> set (conns (heap (snd (onWSConnection L w name s)) ! r0))"
proof -
  obtain r1 s1 where g: "getRoom L name s = (r1, s1)" by (cases "getRoom L name s")
  from getRoom_old_rooms [OF assms(1), of L name] g have same: "heap s1 ! r0 = heap s ! r0"
    by simp
  from getRoom_length [of s L name] g assms(1) have len: "r0 < length (heap s1)" by simp
  from same len assms(2) onWSConnection_eq [OF g, of w] show ?thesis
    by (cases "r1 = r0") (auto simp add: update_room_def Set_add_def)
qed

lemma bindAll_members:
  "wf_server s \<Longrightarrow> bindAll L cs s = (rs, s') \<Longrightarrow>
   (\<forall>r0 c. r0 < length (heap s) \<and> c \<in> set (conns (heap s ! r0)) \<longrightarrow>
      r0 < length (heap s') \<and> c \<in> set (conns (heap s' ! r0))) \<and>
   (\<forall>i<length cs. rs ! i < length (heap s') \<and> fst (cs ! i) \<in> set (conns (heap s' ! (rs ! i))))"
proof (induction cs arbitrary: s rs s')
  case Nil
  then show ?case by simp
next
  case (Cons c cs)
  obtain w name where c: "c = (w, name)" by (cases c)
  obtain r s1 where b: "onWSConnection L w name s = (r, s1)"
    by (cases "onWSConnection L w name s")
  obtain rs1 s2 where t: "bindAll L cs s1 = (rs1, s2)" by (cases "bindAll L cs s1")
  from Cons.prems(2) c b t have eq: "rs = r # rs1" "s' = s2" by simp_all
  from onWSConnection_wf [OF Cons.prems(1) b] have wf1: "wf_server s1" .
  from Cons.IH [OF wf1 t] have ih1:
    "\<forall>r0 c. r0 < length (heap s1) \<and> c \<in> set (conns (heap s1 ! r0)) \<longrightarrow>
       r0 < length (heap s2) \<and> c \<in> set (conns (heap s2 ! r0))"
    by (rule conjunct1)
  from Cons.IH [OF wf1 t] have ih2:
    "\<forall>i<length cs. rs1 ! i < length (heap s2) \<and> fst (cs ! i) \<in> set (conns (heap s2 ! (rs1 ! i)))"
    by (rule conjunct2)
  have mono: "\<forall>r0 c. r0 < length (heap s) \<and> c \<in> set (conns (heap s ! r0)) \<longrightarrow>
       r0 < length (heap s2) \<and> c \<in> set (conns (heap s2 ! r0))"
    using onWSConnection_conns_mono [of _ s _ L w name] b ih1 by auto
  have head: "r < length (heap s2) \<and> w \<in> set (conns (heap s2 ! r))"
    using onWSConnection_member [OF Cons.prems(1) b] ih1 by blast
  have "\<forall>i<length (c # cs). (r # rs1) ! i < length (heap s2) \<and>
          fst ((c # cs) ! i) \<in> set (conns (heap s2 ! ((r # rs1) ! i)))"
  proof (intro allI impI)
    fix i assume "i < length (c # cs)"
    then show "(r # rs1) ! i < length (heap s2) \<and>
          fst ((c # cs) ! i) \<in> set (conns (heap s2 ! ((r # rs1) ! i)))"
      using head ih2 c by (cases i) simp_all
  qed
  with mono eq show ?case by blast
qed

lemma wf_init: "wf_server init_server"
  by (simp add: wf_server_def init_server_def)

lemma onClose_wf: "wf_server s \<Longrightarrow> wf_server (onClose w r s)"
  by (simp add: wf_server_def onClose_def update_room_def)

lemma onMessage_wf: "wf_server s \<Longrightarrow> onMessage L w r data s = Inr s' \<Longrightarrow> wf_server s'"
  by (auto simp add: wf_server_def onMessage_def Let_def update_room_fields send_fields
      onAwarenessUpdate_frame split: option.splits if_splits)

text \<open>
  Claim C3.  \<^verbatim>\<open>getRoom\<close> returns the room stored for the name and leaves the server as
  it is; when none is stored it makes a room with a new document, a new awareness and an
  empty connection set, at a reference no name had, stores it and returns it.  A second
  call with the same name returns the same room and changes nothing.  Hence after any
  sequence of connections has been bound, each connection is in the connection set of
  the one room the registry holds for its name, and connections bound under the same
  name are bound to the same room.
\<close>

theorem getRoom_single_instance:
  assumes "wf_server s"
  shows "(\<forall>r. map_of (rooms s) name = Some r \<longrightarrow> getRoom L name s = (r, s)) \<and>
         (map_of (rooms s) name = None \<longrightarrow>
            (\<exists>s'. getRoom L name s = (length (heap s), s') \<and>
                  heap s' = heap s @ [\<lparr>doc = newDoc L (length (heap s)),
                                        awareness = newAwareness L (newDoc L (length (heap s))),
                                        conns = []\<rparr>] \<and>
                  rooms s' = rooms s @ [(name, length (heap s))] \<and>
                  length (heap s) \<notin> snd ` set (rooms s) \<and>
                  outbox s' = outbox s)) \<and>
         getRoom L name (snd (getRoom L name s)) = getRoom L name s \<and>
         (\<forall>cs rs s'. bindAll L cs s = (rs, s') \<longrightarrow>
            wf_server s' \<and> length rs = length cs \<and>
            (\<forall>i<length cs. map_of (rooms s') (snd (cs ! i)) = Some (rs ! i) \<and>
                           rs ! i < length (heap s') \<and>
                           fst (cs ! i) \<in> set (conns (heap s' ! (rs ! i)))) \<and>
            (\<forall>i<length cs. \<forall>j<length cs. snd (cs ! i) = snd (cs ! j) \<longrightarrow> rs ! i = rs ! j))"
proof -
  have p1: "\<forall>r. map_of (rooms s) name = Some r \<longrightarrow> getRoom L name s = (r, s)"
    by (simp add: getRoom_existing)
  have p2: "map_of (rooms s) name = None \<longrightarrow>
            (\<exists>s'. getRoom L name s = (length (heap s), s') \<and>
                  heap s' = heap s @ [\<lparr>doc = newDoc L (length (heap s)),
                                        awareness = newAwareness L (newDoc L (length (heap s))),
                                        conns = []\<rparr>] \<and>
                  rooms s' = rooms s @ [(name, length (heap s))] \<and>
                  length (heap s) \<notin> snd ` set (rooms s) \<and>
                  outbox s' = outbox s)"
    using wf_fresh [OF assms] by (simp add: getRoom_new)
  have p3: "getRoom L name (snd (getRoom L name s)) = getRoom L name s"
    by (rule getRoom_twice)
  have p4: "\<forall>cs rs s'. bindAll L cs s = (rs, s') \<longrightarrow>
            wf_server s' \<and> length rs = length cs \<and>
            (\<forall>i<length cs. map_of (rooms s') (snd (cs ! i)) = Some (rs ! i) \<and>
                           rs ! i < length (heap s') \<and>
                           fst (cs ! i) \<in> set (conns (heap s' ! (rs ! i)))) \<and>
            (\<forall>i<length cs. \<forall>j<length cs. snd (cs ! i) = snd (cs ! j) \<longrightarrow> rs ! i = rs ! j)"
  proof (intro allI impI)
    fix cs rs s' assume b: "bindAll L cs s = (rs, s')"
    from bindAll_rooms [OF assms b] have wf': "wf_server s'" and len: "length rs = length cs"
      and look: "\<forall>i<length cs. map_of (rooms s') (snd (cs ! i)) = Some (rs ! i)"
      by simp_all
    from bindAll_members [OF assms b] have mem:
      "\<forall>i<length cs. rs ! i < length (heap s') \<and> fst (cs ! i) \<in> set (conns (heap s' ! (rs ! i)))"
      by (rule conjunct2)
    have one: "\<forall>i<length cs. \<forall>j<length cs. snd (cs ! i) = snd (cs ! j) \<longrightarrow> rs ! i = rs ! j"
    proof (intro allI impI)
      fix i j assume "i < length cs" and "j < length cs" and "snd (cs ! i) = snd (cs ! j)"
      with look have "Some (rs ! i) = Some (rs ! j)" by metis
      then show "rs ! i = rs ! j" by simp
    qed
    from wf' len look mem one
    show "wf_server s' \<and> length rs = length cs \<and>
            (\<forall>i<length cs. map_of (rooms s') (snd (cs ! i)) = Some (rs ! i) \<and>
                           rs ! i < length (heap s') \<and>
                           fst (cs ! i) \<in> set (conns (heap s' ! (rs ! i)))) \<and>
            (\<forall>i<length cs. \<forall>j<length cs. snd (cs ! i) = snd (cs ! j) \<longrightarrow> rs ! i = rs ! j)"
      by blast
  qed
  show ?thesis by (rule conjI [OF p1 conjI [OF p2 conjI [OF p3 p4]]])
qed

theorem getRoom_single_instance_witness:
  "wf_server example_state \<and>
   getRoom sample_lib ''studio-123'' example_state = (0, example_state) \<and>
   fst (getRoom sample_lib ''lobby'' example_state) = 1 \<and>
   fst (bindAll sample_lib [(4, ''studio-123''), (5, ''lobby''), (6, ''studio-123'')] example_state)
     = [0, 1, 0]"
proof -
  have wf: "wf_server example_state" by (simp add: wf_server_def example_state_def)
  have a: "getRoom sample_lib ''studio-123'' example_state = (0, example_state)"
    using getRoom_single_instance [OF wf, of "''studio-123''" sample_lib]
    by (simp add: example_state_def)
  have b: "fst (getRoom sample_lib ''lobby'' example_state) = 1"
    by (simp add: run_simps example_state_def)
  have c: "fst (bindAll sample_lib [(4, ''studio-123''), (5, ''lobby''), (6, ''studio-123'')]
      example_state) = [0, 1, 0]"
    by (simp add: run_simps example_state_def)
  from wf a b c show ?thesis by simp
qed

subsection \<open>Binding a connection\<close>

text \<open>
  Claim C4.  Binding connection \<open>w\<close> to a room puts \<open>w\<close> into the room's connection set
  and then sends to \<open>w\<close> exactly two messages, in this order: the sync step 1 of the
  room's document, and one awareness-kind message that encodes the state of every client
  in the room's presence set.  The second message is sent whatever the presence set
  holds; for a room that existed before, the presence set is the one the room had.
\<close>

theorem bind_sends_sync_then_snapshot:
  assumes "wf_server s" and "onWSConnection L w name s = (r, s')"
  shows "map_of (rooms s') name = Some r \<and> r < length (heap s') \<and>
         w \<in> set (conns (heap s' ! r)) \<and>
         sent_since s s' =
           [(w, writeVarUint MSG_SYNC @ writeSyncStep1 L (doc (heap s' ! r))),
            (w, writeVarUint MSG_AWARENESS @ writeVarUint8Array
                  (encodeAwarenessUpdate L (awareness (heap s' ! r))
                     (map fst (getStates L (awareness (heap s' ! r))))))] \<and>
         (map_of (rooms s) name = Some r \<longrightarrow>
            awareness (heap s' ! r) = awareness (heap s ! r) \<and>
            doc (heap s' ! r) = doc (heap s ! r) \<and>
            set (conns (heap s' ! r)) = insert w (set (conns (heap s ! r))))"
proof -
  obtain r1 s1 where g: "getRoom L name s = (r1, s1)" by (cases "getRoom L name s")
  from getRoom_bound [OF assms(1) g] have bound: "r1 < length (heap s1)" .
  from getRoom_outbox [of L name s] g have out: "outbox s1 = outbox s" by simp
  have old: "map_of (rooms s) name = Some r1 \<longrightarrow> s1 = s"
    using g by (auto simp add: getRoom_existing)
  from onWSConnection_lookup [OF assms(2)] have look: "map_of (rooms s') name = Some r" .
  from assms(2) onWSConnection_eq [OF g, of w] have r: "r = r1" by simp
  from assms(2) onWSConnection_eq [OF g, of w] bound out old r look show ?thesis
    by (auto simp add: update_room_def sent_since_def Set_add_def split: if_splits)
qed

theorem bind_sends_sync_then_snapshot_witness:
  "wf_server example_state \<and>
   onWSConnection sample_lib 4 ''studio-123'' example_state
     = (0, example_state
            \<lparr>heap := [\<lparr>doc = [],
                       awareness = [(0, JObj []), (7, JObj [(ascii ''name'', JStr (ascii ''Alice''))])],
                       conns = [1, 2, 3, 4]\<rparr>],
              outbox := outbox example_state @ [(4, [0, 0, 0]), (4, [1, 4, 0, 1, 7, 1])]\<rparr>)"
proof -
  have wf: "wf_server example_state" by (simp add: wf_server_def example_state_def)
  have a: "onWSConnection sample_lib 4 ''studio-123'' example_state
     = (0, example_state
            \<lparr>heap := [\<lparr>doc = [],
                       awareness = [(0, JObj []), (7, JObj [(ascii ''name'', JStr (ascii ''Alice''))])],
                       conns = [1, 2, 3, 4]\<rparr>],
              outbox := outbox example_state @ [(4, [0, 0, 0]), (4, [1, 4, 0, 1, 7, 1])]\<rparr>)"
    by (simp add: run_simps example_state_def)
  from bind_sends_sync_then_snapshot [OF wf a] wf a show ?thesis by simp
qed

text \<open>
  Claim C2, as amended.  When the transport of a connection closes, the close listener
  removes the handle from the connection set of its room.  It leaves the presence set of
  the room as it is, with every client identifier it held, and sends nothing.  A
  connection that joins the room directly after the close is therefore sent the
  reconciliation request and one full snapshot that encodes exactly the client
  identifiers the presence set held before the close, the same two messages it would
  have been sent before the close.
\<close>

theorem close_keeps_presence:
  assumes "r < length (heap s)" and "map_of (rooms s) name = Some r"
  shows "w \<notin> set (conns (heap (onClose w r s) ! r)) \<and>
         awareness (heap (onClose w r s) ! r) = awareness (heap s ! r) \<and>
         map fst (getStates L (awareness (heap (onClose w r s) ! r)))
           = map fst (getStates L (awareness (heap s ! r))) \<and>
         sent_since s (onClose w r s) = [] \<and>
         sent_since (onClose w r s) (snd (onWSConnection L w' name (onClose w r s)))
           = [(w', writeVarUint MSG_SYNC @ writeSyncStep1 L (doc (heap s ! r))),
              (w', writeVarUint MSG_AWARENESS @ writeVarUint8Array
                     (encodeAwarenessUpdate L (awareness (heap s ! r))
                        (map fst (getStates L (awareness (heap s ! r))))))] \<and>
         sent_since (onClose w r s) (snd (onWSConnection L w' name (onClose w r s)))
           = sent_since s (snd (onWSConnection L w' name s))"
proof -
  have g0: "getRoom L name s = (r, s)" using assms(2) by (rule getRoom_existing)
  have "map_of (rooms (onClose w r s)) name = Some r"
    using assms(2) by (simp add: onClose_def update_room_def)
  then have g1: "getRoom L name (onClose w r s) = (r, onClose w r s)" by (rule getRoom_existing)
  from assms(1) onWSConnection_eq [OF g0, of w'] onWSConnection_eq [OF g1, of w'] show ?thesis
    by (simp add: onClose_def update_room_def sent_since_def Set_delete_def)
qed

theorem close_keeps_presence_witness:
  "0 < length (heap example_state) \<and> map_of (rooms example_state) ''studio-123'' = Some 0 \<and>
   conns (heap (onClose 1 0 example_state) ! 0) = [2, 3] \<and>
   map fst (getStates sample_lib (awareness (heap example_state ! 0))) = [0, 7] \<and>
   sent_since (onClose 1 0 example_state)
     (snd (onWSConnection sample_lib 4 ''studio-123'' (onClose 1 0 example_state)))
     = sent_since example_state (snd (onWSConnection sample_lib 4 ''studio-123'' example_state))"
proof -
  have a: "0 < length (heap example_state)" by (simp add: example_state_def)
  have b: "map_of (rooms example_state) ''studio-123'' = Some 0" by (simp add: example_state_def)
  have c: "conns (heap (onClose 1 0 example_state) ! 0) = [2, 3]"
    by (simp add: run_simps example_state_def)
  have d: "map fst (getStates sample_lib (awareness (heap example_state ! 0))) = [0, 7]"
    by (simp add: run_simps example_state_def)
  have e: "sent_since (onClose 1 0 example_state)
     (snd (onWSConnection sample_lib 4 ''studio-123'' (onClose 1 0 example_state)))
     = sent_since example_state (snd (onWSConnection sample_lib 4 ''studio-123'' example_state))"
    using close_keeps_presence [OF a b, of 1 sample_lib 4] by blast
  from a b c d e show ?thesis by blast
qed

text \<open>
  Claim C2 as it is stated fails: in \<open>example_state\<close> socket 1 has announced client 7.
  After socket 1 closes, client 7 is still in the presence set, no removal was sent to
  sockets 2 and 3, and the snapshot sent to the later joiner 4 still names client 7.
\<close>

theorem close_drops_presence_counterexample:
  "map fst (getStates sample_lib (awareness (heap (onClose 1 0 example_state) ! 0))) = [0, 7] \<and>
   sent_since example_state (onClose 1 0 example_state) = [] \<and>
   sent_since (onClose 1 0 example_state)
     (snd (onWSConnection sample_lib 4 ''studio-123'' (onClose 1 0 example_state)))
     = [(4, [0, 0, 0]), (4, [1, 4, 0, 1, 7, 1])]"
  by (simp add: run_simps example_state_def)


subsection \<open>The upgrade listener\<close>

lemma strip_yjs_prefix:
  "strip_yjs (''/yjs'' @ rest) = (if take 1 rest = ''/'' then drop 1 rest else rest)"
  by (simp add: strip_yjs_def)

text \<open>
  Claim C6.  A request whose URL does not parse, or whose path does not start with
  \<^verbatim>\<open>/yjs\<close>, is refused: the socket is destroyed, no connection is bound and the server
  state is unchanged.  Otherwise the room is what follows the prefix and one optional
  slash in the path; when nothing follows, it is the \<^verbatim>\<open>room\<close> query parameter; and when
  the parameter is absent too (or empty), it is \<^verbatim>\<open>default\<close>.  The connection is then bound
  to that room.
\<close>

theorem upgrade_room_by_path_then_query:
  "upgrade_room None = None \<and>
   (take 4 (pathname u) \<noteq> ''/yjs'' \<longrightarrow>
      upgrade_room (Some u) = None \<and> onUpgrade L (Some u) w s = (None, s)) \<and>
   (\<forall>room. pathname u = ''/yjs/'' @ room \<and> room \<noteq> [] \<longrightarrow> upgrade_room (Some u) = Some room) \<and>
   (\<forall>rest. pathname u = ''/yjs'' @ rest \<and> rest \<noteq> [] \<and> take 1 rest \<noteq> ''/'' \<longrightarrow>
      upgrade_room (Some u) = Some rest) \<and>
   (pathname u = ''/yjs'' \<or> pathname u = ''/yjs/'' \<longrightarrow>
      (\<forall>q. room_param u = Some q \<and> q \<noteq> [] \<longrightarrow> upgrade_room (Some u) = Some q) \<and>
      (room_param u = None \<or> room_param u = Some [] \<longrightarrow> upgrade_room (Some u) = Some ''default'')) \<and>
   (\<forall>room. upgrade_room (Some u) = Some room \<longrightarrow>
      onUpgrade L (Some u) w s
        = (Some (fst (onWSConnection L w room s)), snd (onWSConnection L w room s)))"
  by (auto simp add: upgrade_room_def onUpgrade_def strip_yjs_def Let_def split: prod.splits)

theorem upgrade_room_by_path_then_query_witness:
  "upgrade_room (Some \<lparr>pathname = ''/api/rooms'', room_param = Some ''studio-123''\<rparr>) = None \<and>
   upgrade_room (Some \<lparr>pathname = ''/yjs/studio-123'', room_param = Some ''lobby''\<rparr>)
     = Some ''studio-123'' \<and>
   upgrade_room (Some \<lparr>pathname = ''/yjs'', room_param = Some ''lobby''\<rparr>) = Some ''lobby'' \<and>
   upgrade_room (Some \<lparr>pathname = ''/yjs/'', room_param = None\<rparr>) = Some ''default''"
  using upgrade_room_by_path_then_query
      [of "\<lparr>pathname = ''/api/rooms'', room_param = Some ''studio-123''\<rparr>" sample_lib 4 example_state]
    upgrade_room_by_path_then_query
      [of "\<lparr>pathname = ''/yjs/studio-123'', room_param = Some ''lobby''\<rparr>" sample_lib 4 example_state]
    upgrade_room_by_path_then_query
      [of "\<lparr>pathname = ''/yjs'', room_param = Some ''lobby''\<rparr>" sample_lib 4 example_state]
    upgrade_room_by_path_then_query
      [of "\<lparr>pathname = ''/yjs/'', room_param = None\<rparr>" sample_lib 4 example_state]
  by simp

subsection \<open>The room directory\<close>

text \<open>
  Where every name the route reads is a string, or is missing or falsy, the loops of the
  route compute the directory as the specification words it.
\<close>

lemma peer_of_spec:
  "name_is_text (snd e) \<Longrightarrow>
   peer_of L e = Inr (if spec_placeholder L (spec_display_name (snd e)) then None
                      else Some (spec_triple e))"
  by (cases e)
    (auto simp add: peer_of_def name_is_text_def spec_placeholder_def spec_display_name_def
      spec_triple_def Let_def split: json.splits)

lemma peers_of_spec:
  "list_all (\<lambda>e. name_is_text (snd e)) es \<Longrightarrow> peers_of L es acc = Inr (acc @ spec_peers L es)"
  by (induction es arbitrary: acc) (simp_all add: peer_of_spec spec_peers_def)

lemma summarise_spec:
  "list_all (\<lambda>e. list_all (\<lambda>st. name_is_text (snd st)) (getStates L (awareness (h ! snd e)))) es \<Longrightarrow>
   summarise L h es acc
     = Inr (acc @ map (\<lambda>e. (fst e, spec_peers L (getStates L (awareness (h ! snd e))))) es)"
proof (induction es arbitrary: acc)
  case Nil
  then show ?case by simp
next
  case (Cons e es)
  obtain name r where e: "e = (name, r)" by (cases e)
  from Cons.prems e have
    here: "list_all (\<lambda>st. name_is_text (snd st)) (getStates L (awareness (h ! r)))"
    and rest: "list_all (\<lambda>e. list_all (\<lambda>st. name_is_text (snd st))
                 (getStates L (awareness (h ! snd e)))) es"
    by simp_all
  from peers_of_spec [OF here, of L "[]"] Cons.IH [OF rest] e show ?case by simp
qed

lemma spec_peers_named: "p \<in> set (spec_peers L sts) \<Longrightarrow> \<not> spec_placeholder L (peer_name p)"
  by (auto simp add: spec_peers_def spec_triple_def)

lemma listRooms_filters_placeholders:
  assumes "presence_well_typed L s"
  shows "listRooms L s = Inr (spec_listRooms L s) \<and>
         map fst (spec_listRooms L s) = map fst (rooms s) \<and>
         (\<forall>e \<in> set (spec_listRooms L s). \<forall>p \<in> set (snd e). \<not> spec_placeholder L (peer_name p))"
  using assms summarise_spec [of L "heap s" "rooms s" "[]"]
  by (auto simp add: listRooms_def spec_listRooms_def presence_well_typed_def comp_def
      dest: spec_peers_named)

lemmas dir_simps =
  listRooms_def peer_of_def prop_or_def get_prop_def truthy_def trim_def is_space_def
  sample_toLowerCase_def Let_def sample_lib_fields ascii_def name_is_text_def
  presence_well_typed_def

lemma listRooms_filters_placeholders_witness:
  "presence_well_typed sample_lib directory_state \<and>
   listRooms sample_lib directory_state
     = Inr [(''studio-123'',
             [\<lparr>peer_id = 7, peer_name = ascii ''Alice'', peer_color = JStr (ascii ''#ff0000'')\<rparr>,
              \<lparr>peer_id = 10, peer_name = ascii ''Bob'', peer_color = JStr (ascii ''#999'')\<rparr>]),
            (''lobby'', [])]"
proof -
  have a: "presence_well_typed sample_lib directory_state"
    by (simp add: dir_simps directory_state_def)
  have b: "listRooms sample_lib directory_state
     = Inr [(''studio-123'',
             [\<lparr>peer_id = 7, peer_name = ascii ''Alice'', peer_color = JStr (ascii ''#ff0000'')\<rparr>,
              \<lparr>peer_id = 10, peer_name = ascii ''Bob'', peer_color = JStr (ascii ''#999'')\<rparr>]),
            (''lobby'', [])]"
    by (simp add: dir_simps directory_state_def)
  from listRooms_filters_placeholders [OF a] a b show ?thesis by simp
qed

text \<open>
  A truthy name that is not a string has no \<^verbatim>\<open>trim\<close>: the callback throws, the exception
  leaves the route, and no directory is sent for any room.
\<close>

lemma peer_of_untyped: "\<not> name_is_text (snd e) \<Longrightarrow> peer_of L e = Inl TypeError"
  by (cases e) (auto simp add: peer_of_def name_is_text_def split: json.splits)

lemma peers_of_untyped:
  "\<not> list_all (\<lambda>e. name_is_text (snd e)) es \<Longrightarrow> peers_of L es acc = Inl TypeError"
proof (induction es arbitrary: acc)
  case Nil
  then show ?case by simp
next
  case (Cons e es)
  show ?case
  proof (cases "name_is_text (snd e)")
    case True
    with Cons.prems have "\<not> list_all (\<lambda>e. name_is_text (snd e)) es" by simp
    with Cons.IH True show ?thesis by (simp add: peer_of_spec)
  next
    case False
    then show ?thesis by (simp add: peer_of_untyped)
  qed
qed

lemma listRooms_untyped: "\<not> presence_well_typed L s \<Longrightarrow> listRooms L s = Inl TypeError"
proof -
  have "\<not> list_all (\<lambda>e. list_all (\<lambda>st. name_is_text (snd st))
            (getStates L (awareness (h ! snd e)))) es \<Longrightarrow>
        summarise L h es acc = Inl TypeError" for h es acc
  proof (induction es arbitrary: acc)
    case Nil
    then show ?case by simp
  next
    case (Cons e es)
    obtain name r where e: "e = (name, r)" by (cases e)
    show ?case
    proof (cases "list_all (\<lambda>st. name_is_text (snd st)) (getStates L (awareness (h ! r)))")
      case True
      with Cons.prems e have "\<not> list_all (\<lambda>e. list_all (\<lambda>st. name_is_text (snd st))
            (getStates L (awareness (h ! snd e)))) es" by simp
      with Cons.IH peers_of_spec [OF True, of L "[]"] e show ?thesis by simp
    next
      case False
      with peers_of_untyped [OF False, of L "[]"] e show ?thesis by simp
    qed
  qed
  then show "\<not> presence_well_typed L s \<Longrightarrow> listRooms L s = Inl TypeError"
    by (simp add: presence_well_typed_def listRooms_def)
qed

text \<open>
  Claim C7 says that the directory route returns, for every room of the registry, the
  triples of its presence entries without the placeholders.  The code breaks it as soon
  as one entry of one room has a truthy name that is not a string.  In \<open>example_state\<close>
  socket 2 announces client 8 with the number 5 for a name, a state the relay stores as
  it stores any other.  From then on the route throws a \<^verbatim>\<open>TypeError\<close> at \<^verbatim>\<open>trim\<close> and
  returns no directory, although client 7 of the same room is named \<^verbatim>\<open>Alice\<close>.
\<close>

theorem listRooms_throws_on_numeric_name:
  "onMessage sample_lib 2 0 [1, 3, 8, 0, 5] example_state = Inr example_numeric \<and>
   wf_server example_numeric \<and>
   (7, JObj [(ascii ''name'', JStr (ascii ''Alice''))])
     \<in> set (getStates sample_lib (awareness (heap example_numeric ! 0))) \<and>
   listRooms sample_lib example_numeric = Inl TypeError"
proof -
  have a: "onMessage sample_lib 2 0 [1, 3, 8, 0, 5] example_state = Inr example_numeric"
    by (simp add: run_simps example_state_def example_numeric_def)
  have b: "wf_server example_numeric"
    by (simp add: wf_server_def example_numeric_def example_state_def)
  have c: "(7, JObj [(ascii ''name'', JStr (ascii ''Alice''))])
     \<in> set (getStates sample_lib (awareness (heap example_numeric ! 0)))"
    by (simp add: sample_lib_fields example_numeric_def example_state_def)
  have d: "listRooms sample_lib example_numeric = Inl TypeError"
    by (simp add: dir_simps example_numeric_def example_state_def)
  from a b c d show ?thesis by simp
qed

end
